theory Spec2Isabelle
  imports Complex_Main "HOL-Library.Word" "HOL-Library.Log_Nat"
begin

section \<open>Strings\<close>

text \<open>
  Two kinds of JavaScript strings occur in \<^verbatim>\<open>server.js\<close>.

  \<^item> \<^verbatim>\<open>req.method\<close>, \<^verbatim>\<open>req.url\<close>, header names and file-system paths. Node's HTTP
    parser hands the request target over as a one-byte string, so every code unit is
    below 256: these are modelled as \<^typ>\<open>string\<close>.
  \<^item> The request body, the text of the configuration file and the JSON texts the server
    produces. These are sequences of UTF-16 code units: \<open>jsstring\<close>.
\<close>

type_synonym jschar = "16 word"
type_synonym jsstring = "jschar list"

definition js :: "string \<Rightarrow> jsstring" where
  "js s = map of_char s"

text \<open>\<^verbatim>\<open>String.prototype.startsWith\<close> and \<^verbatim>\<open>s.split('?')[0]\<close>.\<close>

definition startsWith :: "string \<Rightarrow> string \<Rightarrow> bool" where
  "startsWith s p = (take (length p) s = p)"

definition strip_query :: "string \<Rightarrow> string" where
  "strip_query u = takeWhile (\<lambda>c. c \<noteq> CHR ''?'') u"

text \<open>
  \<^verbatim>\<open>String.prototype.toLowerCase\<close> on one-byte strings: the upper-case letters of
  Latin-1 are A to Z and U+00C0 to U+00DE without the multiplication sign U+00D7; each
  has its lower-case partner 32 code points further on.
\<close>

definition lower_char :: "char \<Rightarrow> char" where
  "lower_char c =
     (let n = (of_char c :: nat)
      in if (65 \<le> n \<and> n \<le> 90) \<or> (192 \<le> n \<and> n \<le> 222 \<and> n \<noteq> 215)
         then char_of (n + 32) else c)"

definition toLowerCase :: "string \<Rightarrow> string" where
  "toLowerCase s = map lower_char s"

section \<open>The \<^verbatim>\<open>path\<close> module (POSIX)\<close>

text \<open>\<^verbatim>\<open>s.split('/')\<close>: the segments between slashes, empty ones included.\<close>

fun split_slash :: "string \<Rightarrow> string list" where
  "split_slash [] = [[]]"
| "split_slash (c # cs) =
     (if c = CHR ''/'' then [] # split_slash cs
      else case split_slash cs of [] \<Rightarrow> [[c]] | s # ss \<Rightarrow> (c # s) # ss)"

fun join_slash :: "string list \<Rightarrow> string" where
  "join_slash [] = []"
| "join_slash [s] = s"
| "join_slash (s # t # ss) = s @ CHR ''/'' # join_slash (t # ss)"

text \<open>
  \<^verbatim>\<open>normalizeString(path, allowAboveRoot, '/', isPosixPathSeparator)\<close> scans the path
  once and keeps the result so far in \<^verbatim>\<open>res\<close>. At each separator it looks at the
  segment just read: an empty segment or \<^verbatim>\<open>.\<close> changes nothing; \<^verbatim>\<open>..\<close> removes
  the last segment of \<^verbatim>\<open>res\<close> when there is one other than \<^verbatim>\<open>..\<close>, and is kept
  only if \<^verbatim>\<open>allowAboveRoot\<close>; any other segment is appended. The model keeps
  \<^verbatim>\<open>res\<close> as the list of its segments.
\<close>

definition normalize_step :: "bool \<Rightarrow> string list \<Rightarrow> string \<Rightarrow> string list" where
  "normalize_step allowAboveRoot res seg =
     (if seg = [] \<or> seg = ''.'' then res
      else if seg = ''..'' then
        (if res \<noteq> [] \<and> last res \<noteq> ''..'' then butlast res
         else if allowAboveRoot then res @ [''..''] else res)
      else res @ [seg])"

definition normalizeString :: "string \<Rightarrow> bool \<Rightarrow> string" where
  "normalizeString path allowAboveRoot =
     join_slash (foldl (normalize_step allowAboveRoot) [] (split_slash path))"

definition normalize :: "string \<Rightarrow> string" where
  "normalize path =
     (if path = [] then ''.''
      else
        let isAbsolute = (hd path = CHR ''/'');
            trailingSeparator = (last path = CHR ''/'');
            p = normalizeString path (\<not> isAbsolute)
        in if p = [] then (if isAbsolute then ''/'' else if trailingSeparator then ''./'' else ''.'')
           else
             let p' = (if trailingSeparator then p @ ''/'' else p)
             in if isAbsolute then CHR ''/'' # p' else p')"

definition path_join :: "string list \<Rightarrow> string" where
  "path_join args =
     (let joined = join_slash (filter (\<lambda>a. a \<noteq> []) args)
      in if joined = [] then ''.'' else normalize joined)"

text \<open>
  \<^verbatim>\<open>path.extname\<close> walks the path from its last character to its first. The record
  holds the loop's variables; \<open>-1\<close> is the source's "not seen yet".
\<close>

record ext_state =
  startDot :: int
  startPart :: int
  end_pos :: int
  matchedSlash :: bool
  preDotState :: int

fun extname_loop :: "string \<Rightarrow> nat \<Rightarrow> ext_state \<Rightarrow> ext_state" where
  "extname_loop path 0 st = st"
| "extname_loop path (Suc i) st =
     (let code = path ! i in
      if code = CHR ''/'' then
        (if \<not> matchedSlash st then st\<lparr>startPart := int i + 1\<rparr>
         else extname_loop path i st)
      else
        let st1 = (if end_pos st = - 1 then st\<lparr>matchedSlash := False, end_pos := int i + 1\<rparr>
                   else st);
            st2 = (if code = CHR ''.'' then
                     (if startDot st1 = - 1 then st1\<lparr>startDot := int i\<rparr>
                      else if preDotState st1 \<noteq> 1 then st1\<lparr>preDotState := 1\<rparr>
                      else st1)
                   else if startDot st1 \<noteq> - 1 then st1\<lparr>preDotState := - 1\<rparr>
                   else st1)
        in extname_loop path i st2)"

definition extname :: "string \<Rightarrow> string" where
  "extname path =
     (let st = extname_loop path (length path)
                 \<lparr>startDot = - 1, startPart = 0, end_pos = - 1, matchedSlash = True,
                  preDotState = 0\<rparr>
      in if startDot st = - 1 \<or> end_pos st = - 1 \<or> preDotState st = 0 \<or>
            (preDotState st = 1 \<and> startDot st = end_pos st - 1 \<and>
             startDot st = startPart st + 1)
         then []
         else take (nat (end_pos st) - nat (startDot st)) (drop (nat (startDot st)) path))"

section \<open>Content types\<close>

definition types :: "(string \<times> string) list" where
  "types =
     [(''.html'', ''text/html''),
      (''.css'', ''text/css''),
      (''.js'', ''application/javascript''),
      (''.json'', ''application/json''),
      (''.png'', ''image/png''),
      (''.jpg'', ''image/jpeg''),
      (''.jpeg'', ''image/jpeg''),
      (''.gif'', ''image/gif''),
      (''.svg'', ''image/svg+xml''),
      (''.ico'', ''image/x-icon'')]"

text \<open>
  \<^verbatim>\<open>types[ext] || 'application/octet-stream'\<close>: the default is taken when the table has
  no such key, and would be for an empty (falsy) entry. The key is empty or starts with
  a dot, so no property inherited from \<^verbatim>\<open>Object.prototype\<close> is ever found.
\<close>

definition getContentType :: "string \<Rightarrow> string" where
  "getContentType filePath =
     (let ext = toLowerCase (extname filePath)
      in case map_of types ext of
           None \<Rightarrow> ''application/octet-stream''
         | Some t \<Rightarrow> if t = [] then ''application/octet-stream'' else t)"

section \<open>JSON\<close>

subsection \<open>Numbers\<close>

text \<open>
  A number is a double: \<open>Finite s m e\<close> is \<open>m \<times> 2\<^sup>e\<close>, negative when \<open>s\<close> holds, and
  \<open>Infinity s\<close> is one of the two infinities. No JSON text denotes \<^verbatim>\<open>NaN\<close>.

  \<open>floor_log b a\<close> is the integer part of the logarithm of a positive rational, and
  \<open>number_of_rat\<close> rounds a rational to the nearest double, ties to the even mantissa,
  as IEEE 754 has it; what is beyond the largest double by half a unit or more becomes
  an infinity.
\<close>

datatype number = Finite bool int int | Infinity bool

function digit_count :: "int \<Rightarrow> int \<Rightarrow> int" where
  "digit_count b n = (if n \<le> 0 \<or> b \<le> 1 then 0 else 1 + digit_count b (n div b))"
  by pat_completeness auto
termination
  by (relation "measure (\<lambda>(b, n). nat n)") (auto simp: int_div_less_self)

definition floor_log :: "int \<Rightarrow> rat \<Rightarrow> int" where
  "floor_log b a =
     (case quotient_of a of (n, d) \<Rightarrow>
        let k = digit_count b n - digit_count b d
        in if of_int b powi k \<le> a then k else k - 1)"

definition round_half_even :: "rat \<Rightarrow> int" where
  "round_half_even a =
     (let f = \<lfloor>a\<rfloor>; r = a - of_int f
      in if r < 1 / 2 then f
         else if 1 / 2 < r then f + 1
         else if even f then f else f + 1)"

definition number_of_rat :: "rat \<Rightarrow> number" where
  "number_of_rat q =
     (if q = 0 then Finite False 0 (- 1074)
      else
        let a = \<bar>q\<bar>;
            e = max (floor_log 2 a - 52) (- 1074);
            m = round_half_even (a / 2 powi e)
        in if m = 0 then Finite (q < 0) 0 (- 1074)
           else if m = 2 ^ 53 then
             (if 971 < e + 1 then Infinity (q < 0) else Finite (q < 0) (2 ^ 52) (e + 1))
           else
             (if 971 < e then Infinity (q < 0) else Finite (q < 0) m e))"

text \<open>
  \<^verbatim>\<open>Number::toString\<close> writes a positive number \<open>m \<times> 2\<^sup>e\<close> as the decimal
  \<open>c \<times> 10\<^sup>p\<close> with the fewest digits among those that round to the number, the
  closest to it if there are several, the even one of two that are as close. The search
  starts with one digit and adds one at a time; the two candidates of a length are the
  neighbours of the number. Seventeen digits always suffice.
\<close>

definition value_of :: "int \<Rightarrow> int \<Rightarrow> rat" where
  "value_of m e = of_int m * 2 powi e"

definition exact_decimal :: "int \<Rightarrow> int \<Rightarrow> int \<times> int" where
  "exact_decimal m e = (if 0 \<le> e then (m * 2 ^ nat e, 0) else (m * 5 ^ nat (- e), e))"

definition decimal_value :: "int \<Rightarrow> int \<Rightarrow> rat" where
  "decimal_value c p = of_int c * 10 powi p"

definition rounds_to :: "int \<Rightarrow> int \<Rightarrow> int \<Rightarrow> int \<Rightarrow> bool" where
  "rounds_to m e c p = (0 < c \<and> number_of_rat (decimal_value c p) = Finite False m e)"

fun shortest_search :: "int \<Rightarrow> int \<Rightarrow> int \<Rightarrow> nat \<Rightarrow> int \<times> int" where
  "shortest_search m e p 0 = exact_decimal m e"
| "shortest_search m e p (Suc j) =
     (let a = value_of m e;
          lo = \<lfloor>a / 10 powi p\<rfloor>;
          hi = lo + 1;
          ok_lo = rounds_to m e lo p;
          ok_hi = rounds_to m e hi p
      in if ok_lo \<and> ok_hi then
           (let d_lo = a - decimal_value lo p; d_hi = decimal_value hi p - a
            in if d_lo < d_hi then (lo, p)
               else if d_hi < d_lo then (hi, p)
               else if even lo then (lo, p) else (hi, p))
         else if ok_lo then (lo, p)
         else if ok_hi then (hi, p)
         else shortest_search m e (p - 1) j)"

definition shortest_decimal :: "int \<Rightarrow> int \<Rightarrow> int \<times> int" where
  "shortest_decimal m e = shortest_search m e (floor_log 10 (value_of m e)) 17"

text \<open>
  The digits are written without trailing zeros, in one of four layouts: an integer, a
  number with a decimal point, a fraction after \<^verbatim>\<open>0.\<close> and zeros, or a mantissa with an
  exponent.
\<close>

function strip_zeros :: "int \<Rightarrow> int \<Rightarrow> int \<times> int" where
  "strip_zeros c p = (if 0 < c \<and> c mod 10 = 0 then strip_zeros (c div 10) (p + 1) else (c, p))"
  by pat_completeness auto
termination
  by (relation "measure (\<lambda>(c, p). nat c)") auto

function digits :: "int \<Rightarrow> int list" where
  "digits n = (if n < 10 then [n] else digits (n div 10) @ [n mod 10])"
  by pat_completeness auto
termination
  by (relation "measure nat") auto

definition digit_char :: "int \<Rightarrow> jschar" where
  "digit_char d = of_int (48 + d)"

definition digit_chars :: "int \<Rightarrow> jsstring" where
  "digit_chars n = map digit_char (digits n)"

definition format_decimal :: "int \<Rightarrow> int \<Rightarrow> jsstring" where
  "format_decimal s p =
     (let ds = digit_chars s; k = int (length ds); n = p + k
      in if k \<le> n \<and> n \<le> 21 then ds @ replicate (nat (n - k)) (digit_char 0)
         else if 0 < n \<and> n \<le> 21 then take (nat n) ds @ js ''.'' @ drop (nat n) ds
         else if - 6 < n \<and> n \<le> 0 then js ''0.'' @ replicate (nat (- n)) (digit_char 0) @ ds
         else
           (if k = 1 then ds else hd ds # js ''.'' @ tl ds)
           @ js ''e'' @ (if n - 1 < 0 then js ''-'' else js ''+'') @ digit_chars \<bar>n - 1\<bar>)"

definition Number_toString :: "number \<Rightarrow> jsstring" where
  "Number_toString x =
     (case x of
        Infinity neg \<Rightarrow> (if neg then js ''-Infinity'' else js ''Infinity'')
      | Finite neg m e \<Rightarrow>
          if m = 0 then js ''0''
          else (if neg then js ''-'' else []) @
               (case shortest_decimal m e of (c, p) \<Rightarrow>
                  case strip_zeros c p of (s, p') \<Rightarrow> format_decimal s p'))"

subsection \<open>\<^verbatim>\<open>QuoteJSONString\<close>\<close>

definition hex_digit :: "nat \<Rightarrow> jschar" where
  "hex_digit d = (if d < 10 then of_nat (48 + d) else of_nat (87 + d))"

definition UnicodeEscape :: "jschar \<Rightarrow> jsstring" where
  "UnicodeEscape c =
     (let n = unat c
      in [0x5C, 0x75, hex_digit (n div 4096), hex_digit (n div 256 mod 16),
                        hex_digit (n div 16 mod 16), hex_digit (n mod 16)])"

definition is_high_surrogate :: "jschar \<Rightarrow> bool" where
  "is_high_surrogate c = (0xD800 \<le> c \<and> c \<le> 0xDBFF)"

definition is_low_surrogate :: "jschar \<Rightarrow> bool" where
  "is_low_surrogate c = (0xDC00 \<le> c \<and> c \<le> 0xDFFF)"

definition quote_unit :: "jschar \<Rightarrow> jsstring" where
  "quote_unit c =
     (if c = 0x08 then [0x5C, 0x62]
      else if c = 0x09 then [0x5C, 0x74]
      else if c = 0x0A then [0x5C, 0x6E]
      else if c = 0x0C then [0x5C, 0x66]
      else if c = 0x0D then [0x5C, 0x72]
      else if c = 0x22 then [0x5C, 0x22]
      else if c = 0x5C then [0x5C, 0x5C]
      else if c < 0x20 then UnicodeEscape c
      else [c])"

fun quote_units :: "jsstring \<Rightarrow> jsstring" where
  "quote_units [] = []"
| "quote_units [c] =
     (if is_high_surrogate c \<or> is_low_surrogate c then UnicodeEscape c else quote_unit c)"
| "quote_units (c # d # cs) =
     (if is_high_surrogate c then
        (if is_low_surrogate d then c # d # quote_units cs
         else UnicodeEscape c @ quote_units (d # cs))
      else if is_low_surrogate c then UnicodeEscape c @ quote_units (d # cs)
      else quote_unit c @ quote_units (d # cs))"

definition QuoteJSONString :: "jsstring \<Rightarrow> jsstring" where
  "QuoteJSONString s = 0x22 # quote_units s @ [0x22]"


subsection \<open>Values and \<^verbatim>\<open>JSON.stringify\<close>\<close>

datatype json =
  JNull
  | JBool bool
  | JNumber number
  | JString jsstring
  | JArray "json list"
  | JObject "(jsstring \<times> json) list"

fun join_with :: "jsstring \<Rightarrow> jsstring list \<Rightarrow> jsstring" where
  "join_with sep [] = []"
| "join_with sep [s] = s"
| "join_with sep (s # t # ss) = s @ sep @ join_with sep (t # ss)"

definition wrap :: "jsstring \<Rightarrow> jsstring \<Rightarrow> jschar \<Rightarrow> jschar \<Rightarrow> jsstring list \<Rightarrow> jsstring" where
  "wrap gap stepback opening closing partial =
     (if partial = [] then [opening, closing]
      else if gap = [] then opening # join_with (js '','') partial @ [closing]
      else
        opening # 0x0A # (stepback @ gap)
        @ join_with (js '','' @ 0x0A # (stepback @ gap)) partial
        @ 0x0A # stepback @ [closing])"

fun serialize :: "jsstring \<Rightarrow> jsstring \<Rightarrow> json \<Rightarrow> jsstring" where
  "serialize gap indent JNull = js ''null''"
| "serialize gap indent (JBool b) = (if b then js ''true'' else js ''false'')"
| "serialize gap indent (JNumber x) =
     (case x of Finite neg m e \<Rightarrow> Number_toString x | Infinity neg \<Rightarrow> js ''null'')"
| "serialize gap indent (JString s) = QuoteJSONString s"
| "serialize gap indent (JArray vs) =
     wrap gap indent 0x5B 0x5D (map (serialize gap (indent @ gap)) vs)"
| "serialize gap indent (JObject kvs) =
     wrap gap indent 0x7B 0x7D
       (map (\<lambda>(k, v). QuoteJSONString k @ js '':'' @ (if gap = [] then [] else js '' '')
                        @ serialize gap (indent @ gap) v) kvs)"

text \<open>
  Two limits of the engine make the built-in throw a \<^verbatim>\<open>RangeError\<close>.

  \<^item> It is recursive: every array or object it enters takes a frame on the engine's
    stack, and it throws when the stack is exhausted. How many levels fit depends on
    the stack that is left when the call is made; the caller, which is itself running
    on that stack, always has room for one level, and \<open>room\<close> counts the further ones.
    Scalars take no frame.
  \<^item> Its result is a string, and it throws when the text is longer than the engine's
    longest string. That length is at least \<open>2\<^sup>2\<^sup>8 - 16\<close> code units in every build;
    \<open>chars\<close> counts the code units beyond.
\<close>

datatype error = SyntaxError | IOError | RangeError | ERR_HTTP_HEADERS_SENT

primrec max_list :: "nat list \<Rightarrow> nat" where
  "max_list [] = 0"
| "max_list (n # ns) = max n (max_list ns)"

fun depth :: "json \<Rightarrow> nat" where
  "depth JNull = 0"
| "depth (JBool b) = 0"
| "depth (JNumber x) = 0"
| "depth (JString s) = 0"
| "depth (JArray vs) = Suc (max_list (map depth vs))"
| "depth (JObject kvs) = Suc (max_list (map (\<lambda>(k, v). depth v) kvs))"

definition JSON_stringify :: "nat \<Rightarrow> nat \<Rightarrow> json \<Rightarrow> nat \<Rightarrow> error + jsstring" where
  "JSON_stringify room chars v space =
     (let text = serialize (replicate (min space 10) 0x20) [] v
      in if Suc room < depth v \<or> 268435440 + chars < length text then Inl RangeError
         else Inr text)"

subsection \<open>\<^verbatim>\<open>JSON.parse\<close>\<close>

text \<open>
  The text is read into tokens, and the tokens into a value. A number token holds the
  numeral as it is written: its sign, its digits as an integer, and its decimal
  exponent.
\<close>

datatype token =
  LBrace | RBrace | LBracket | RBracket | Comma | Colon
  | TString jsstring | TNumber bool int int | TTrue | TFalse | TNull

definition is_ws :: "jschar \<Rightarrow> bool" where
  "is_ws c = (c = 0x20 \<or> c = 0x09 \<or> c = 0x0A \<or> c = 0x0D)"

definition is_digit :: "jschar \<Rightarrow> bool" where
  "is_digit c = (0x30 \<le> c \<and> c \<le> 0x39)"

definition digits_value :: "jsstring \<Rightarrow> int" where
  "digits_value ds = foldl (\<lambda>acc c. 10 * acc + (uint c - 48)) 0 ds"

definition unhex :: "jschar \<Rightarrow> nat option" where
  "unhex c =
     (if 0x30 \<le> c \<and> c \<le> 0x39 then Some (unat c - 48)
      else if 0x61 \<le> c \<and> c \<le> 0x66 then Some (unat c - 87)
      else if 0x41 \<le> c \<and> c \<le> 0x46 then Some (unat c - 55)
      else None)"

definition hex4 :: "jschar \<Rightarrow> jschar \<Rightarrow> jschar \<Rightarrow> jschar \<Rightarrow> jschar option" where
  "hex4 a b c d =
     (case (unhex a, unhex b, unhex c, unhex d) of
        (Some x, Some y, Some z, Some w) \<Rightarrow> Some (of_nat (((x * 16 + y) * 16 + z) * 16 + w))
      | _ \<Rightarrow> None)"

definition unescape :: "jschar \<Rightarrow> jschar option" where
  "unescape e =
     (if e = 0x22 then Some 0x22
      else if e = 0x5C then Some 0x5C
      else if e = 0x2F then Some 0x2F
      else if e = 0x62 then Some 0x08
      else if e = 0x66 then Some 0x0C
      else if e = 0x6E then Some 0x0A
      else if e = 0x72 then Some 0x0D
      else if e = 0x74 then Some 0x09
      else None)"

definition cons_unit :: "jschar \<Rightarrow> (jsstring \<times> jsstring) option \<Rightarrow> (jsstring \<times> jsstring) option" where
  "cons_unit u r = (case r of None \<Rightarrow> None | Some (s, rest) \<Rightarrow> Some (u # s, rest))"

fun scan_string :: "jsstring \<Rightarrow> (jsstring \<times> jsstring) option" where
  "scan_string [] = None"
| "scan_string (c # cs) =
     (if c = 0x22 then Some ([], cs)
      else if c = 0x5C then
        (case cs of
           [] \<Rightarrow> None
         | e # r \<Rightarrow>
             if e = 0x75 then
               (case r of
                  h1 # h2 # h3 # h4 # r' \<Rightarrow>
                    (case hex4 h1 h2 h3 h4 of
                       None \<Rightarrow> None
                     | Some u \<Rightarrow> cons_unit u (scan_string r'))
                | _ \<Rightarrow> None)
             else
               (case unescape e of
                  None \<Rightarrow> None
                | Some u \<Rightarrow> cons_unit u (scan_string r)))
      else if c < 0x20 then None
      else cons_unit c (scan_string cs))"

definition scan_exponent :: "jsstring \<Rightarrow> (int \<times> jsstring) option" where
  "scan_exponent cs =
     (case cs of
        [] \<Rightarrow> Some (0, cs)
      | c # r \<Rightarrow>
          if c = 0x65 \<or> c = 0x45 then
            (let neg = (r \<noteq> [] \<and> hd r = 0x2D);
                 r' = (if r \<noteq> [] \<and> (hd r = 0x2D \<or> hd r = 0x2B) then tl r else r);
                 ds = takeWhile is_digit r'
             in if ds = [] then None
                else Some (if neg then - digits_value ds else digits_value ds,
                           dropWhile is_digit r'))
          else Some (0, cs))"

definition scan_fraction :: "jsstring \<Rightarrow> (jsstring \<times> jsstring) option" where
  "scan_fraction cs =
     (case cs of
        [] \<Rightarrow> Some ([], cs)
      | c # r \<Rightarrow>
          if c = 0x2E then
            (let ds = takeWhile is_digit r
             in if ds = [] then None else Some (ds, dropWhile is_digit r))
          else Some ([], cs))"

definition scan_number :: "jsstring \<Rightarrow> ((bool \<times> int \<times> int) \<times> jsstring) option" where
  "scan_number cs =
     (let neg = (cs \<noteq> [] \<and> hd cs = 0x2D);
          cs1 = (if neg then tl cs else cs);
          ip = takeWhile is_digit cs1
      in if ip = [] \<or> (hd ip = 0x30 \<and> 1 < length ip) then None
         else
           case scan_fraction (dropWhile is_digit cs1) of
             None \<Rightarrow> None
           | Some (fp, cs2) \<Rightarrow>
               (case scan_exponent cs2 of
                  None \<Rightarrow> None
                | Some (ex, rest) \<Rightarrow>
                    Some ((neg, digits_value (ip @ fp), ex - int (length fp)), rest)))"

lemma scan_string_length: "scan_string cs = Some (s, rest) \<Longrightarrow> length rest < length cs"
proof (induction cs arbitrary: s rest rule: scan_string.induct)
  case 1
  then show ?case by simp
next
  case (2 c cs)
  then show ?case
    by (auto simp: cons_unit_def split: if_splits list.splits option.splits) fastforce+
qed


lemma scan_number_length:
  assumes "scan_number cs = Some (x, rest)"
  shows "length rest < length cs"
proof -
  have frac: "length r \<le> length a" if "scan_fraction a = Some (fp, r)" for a fp r
    using that length_dropWhile_le [of is_digit "tl a"]
    by (auto simp: scan_fraction_def Let_def split: list.splits if_splits)
  have expo: "length r \<le> length a" if "scan_exponent a = Some (ex, r)" for a ex r
  proof (cases a)
    case Nil
    then show ?thesis using that by (simp add: scan_exponent_def)
  next
    case (Cons c t)
    have "length (dropWhile is_digit (tl t)) \<le> length t"
      using length_dropWhile_le [of is_digit "tl t"] by simp
    then show ?thesis
      using that Cons length_dropWhile_le [of is_digit t]
      by (auto simp: scan_exponent_def Let_def split: if_splits)
  qed
  let ?cs1 = "if cs \<noteq> [] \<and> hd cs = 0x2D then tl cs else cs"
  from assms obtain fp cs2 ex where
    ip: "takeWhile is_digit ?cs1 \<noteq> []"
    and f: "scan_fraction (dropWhile is_digit ?cs1) = Some (fp, cs2)"
    and e: "scan_exponent cs2 = Some (ex, rest)"
    by (auto simp: scan_number_def Let_def split: if_splits option.splits)
  have "length (takeWhile is_digit ?cs1) + length (dropWhile is_digit ?cs1) = length ?cs1"
    by (metis length_append takeWhile_dropWhile_id)
  with ip have "length (dropWhile is_digit ?cs1) < length ?cs1"
    by (cases "takeWhile is_digit ?cs1") auto
  moreover have "length ?cs1 \<le> length cs" by simp
  ultimately show ?thesis
    using frac [OF f] expo [OF e] by linarith
qed

function lex :: "jsstring \<Rightarrow> token list option" where
  "lex [] = Some []"
| "lex (c # cs) =
     (if is_ws c then lex cs
      else if c = 0x7B then map_option ((#) LBrace) (lex cs)
      else if c = 0x7D then map_option ((#) RBrace) (lex cs)
      else if c = 0x5B then map_option ((#) LBracket) (lex cs)
      else if c = 0x5D then map_option ((#) RBracket) (lex cs)
      else if c = 0x2C then map_option ((#) Comma) (lex cs)
      else if c = 0x3A then map_option ((#) Colon) (lex cs)
      else if c = 0x22 then
        (case scan_string cs of
           None \<Rightarrow> None
         | Some (s, rest) \<Rightarrow> map_option ((#) (TString s)) (lex rest))
      else if c = 0x2D \<or> is_digit c then
        (case scan_number (c # cs) of
           None \<Rightarrow> None
         | Some ((neg, m, e), rest) \<Rightarrow> map_option ((#) (TNumber neg m e)) (lex rest))
      else if take 4 (c # cs) = js ''true'' then map_option ((#) TTrue) (lex (drop 3 cs))
      else if take 5 (c # cs) = js ''false'' then map_option ((#) TFalse) (lex (drop 4 cs))
      else if take 4 (c # cs) = js ''null'' then map_option ((#) TNull) (lex (drop 3 cs))
      else None)"
  by pat_completeness auto
termination
  by (relation "measure length")
    (auto dest: scan_string_length scan_number_length)

text \<open>
  An object keeps its properties in the order of their creation, but for the keys that
  are array indices (canonical numerals below \<open>2\<^sup>3\<^sup>2 - 1\<close>), which come first and
  ascending. A key that occurs again keeps its place and takes the new value.
\<close>

definition index_of :: "jsstring \<Rightarrow> int option" where
  "index_of k =
     (if k \<noteq> [] \<and> list_all is_digit k \<and> (if hd k = 0x30 then length k = 1 else True)
         \<and> length k \<le> 10 \<and> digits_value k \<le> 4294967294
      then Some (digits_value k) else None)"

fun insert_index :: "int \<Rightarrow> jsstring \<times> json \<Rightarrow> (jsstring \<times> json) list \<Rightarrow> (jsstring \<times> json) list" where
  "insert_index i kv [] = [kv]"
| "insert_index i kv (p # ps) =
     (case index_of (fst p) of
        None \<Rightarrow> kv # p # ps
      | Some j \<Rightarrow> if j < i then p # insert_index i kv ps else kv # p # ps)"

definition CreateDataProperty :: "jsstring \<Rightarrow> json \<Rightarrow> (jsstring \<times> json) list \<Rightarrow> (jsstring \<times> json) list" where
  "CreateDataProperty k v ps =
     (if k \<in> fst ` set ps then map (\<lambda>p. if fst p = k then (k, v) else p) ps
      else case index_of k of
             None \<Rightarrow> ps @ [(k, v)]
           | Some i \<Rightarrow> insert_index i (k, v) ps)"

text \<open>
  The value of a numeral is the double nearest to the decimal it writes, with the sign
  it is written with: \<^verbatim>\<open>-0\<close> and \<^verbatim>\<open>-1e-400\<close> are negative zero.
\<close>

definition number_of_decimal :: "bool \<Rightarrow> int \<Rightarrow> int \<Rightarrow> number" where
  "number_of_decimal neg m e =
     (case number_of_rat (decimal_value m e) of
        Finite s c x \<Rightarrow> Finite neg c x
      | Infinity s \<Rightarrow> Infinity neg)"

function parse_value :: "token list \<Rightarrow> (json \<times> token list) option"
  and parse_elements :: "token list \<Rightarrow> (json list \<times> token list) option"
  and parse_members :: "(jsstring \<times> json) list \<Rightarrow> token list \<Rightarrow> ((jsstring \<times> json) list \<times> token list) option"
where
  "parse_value [] = None"
| "parse_value (t # ts) =
     (case t of
        TNull \<Rightarrow> Some (JNull, ts)
      | TTrue \<Rightarrow> Some (JBool True, ts)
      | TFalse \<Rightarrow> Some (JBool False, ts)
      | TNumber neg m e \<Rightarrow> Some (JNumber (number_of_decimal neg m e), ts)
      | TString s \<Rightarrow> Some (JString s, ts)
      | LBracket \<Rightarrow>
          (case ts of
             RBracket # ts' \<Rightarrow> Some (JArray [], ts')
           | _ \<Rightarrow>
             (case parse_elements ts of
                None \<Rightarrow> None
              | Some (vs, rest) \<Rightarrow> Some (JArray vs, rest)))
      | LBrace \<Rightarrow>
          (case ts of
             RBrace # ts' \<Rightarrow> Some (JObject [], ts')
           | _ \<Rightarrow>
             (case parse_members [] ts of
                None \<Rightarrow> None
              | Some (ps, rest) \<Rightarrow> Some (JObject ps, rest)))
      | _ \<Rightarrow> None)"
| "parse_elements ts =
     (case parse_value ts of
        None \<Rightarrow> None
      | Some (v, r) \<Rightarrow>
          (case r of
             Comma # r' \<Rightarrow>
               if length r' < length ts then
                 (case parse_elements r' of
                    None \<Rightarrow> None
                  | Some (vs, rest) \<Rightarrow> Some (v # vs, rest))
               else None
           | RBracket # r' \<Rightarrow> Some ([v], r')
           | _ \<Rightarrow> None))"
| "parse_members acc ts =
     (case ts of
        TString k # Colon # ts1 \<Rightarrow>
          (case parse_value ts1 of
             None \<Rightarrow> None
           | Some (v, r) \<Rightarrow>
               (case r of
                  Comma # r' \<Rightarrow>
                    if length r' < length ts then parse_members (CreateDataProperty k v acc) r'
                    else None
                | RBrace # r' \<Rightarrow> Some (CreateDataProperty k v acc, r')
                | _ \<Rightarrow> None))
      | _ \<Rightarrow> None)"
  by pat_completeness auto
termination
  by (relation "measure (\<lambda>x. case x of Inl ts \<Rightarrow> 2 * length ts
                                         | Inr (Inl ts) \<Rightarrow> 2 * length ts + 1
                                         | Inr (Inr (acc, ts)) \<Rightarrow> 2 * length ts + 1)")
    auto

definition JSON_parse :: "jsstring \<Rightarrow> json option" where
  "JSON_parse text =
     (case lex text of
        None \<Rightarrow> None
      | Some ts \<Rightarrow>
          (case parse_value ts of
             Some (v, []) \<Rightarrow> Some v
           | _ \<Rightarrow> None))"


section \<open>The server's environment and its responses\<close>

text \<open>
  \<^verbatim>\<open>__dirname\<close> is a parameter of the model. A deployment directory is an absolute,
  normalised path: a slash followed by plain segments.
\<close>

definition PUBLIC_DIR :: "string \<Rightarrow> string" where
  "PUBLIC_DIR dirname = path_join [dirname, ''public'']"

definition CONFIG_FILE :: "string \<Rightarrow> string" where
  "CONFIG_FILE dirname = path_join [dirname, ''config.json'']"

definition plain_segment :: "string \<Rightarrow> bool" where
  "plain_segment s = (s \<noteq> [] \<and> s \<noteq> ''.'' \<and> s \<noteq> ''..'' \<and> CHR ''/'' \<notin> set s)"

definition absolute :: "string list \<Rightarrow> string" where
  "absolute ds = CHR ''/'' # join_slash ds"

text \<open>A path lies inside a directory when it is the directory or continues it after a slash.\<close>

definition inside :: "string \<Rightarrow> string \<Rightarrow> bool" where
  "inside dir p = (p = dir \<or> startsWith p (dir @ ''/''))"

text \<open>
  The file system as the server sees it. The configuration file is missing, unreadable
  or holds a text. \<open>write_error\<close> says whether \<^verbatim>\<open>fs.writeFileSync\<close> on the
  configuration file throws, and in which state it then leaves the file. \<open>readFile\<close>
  is \<^verbatim>\<open>fs.readFile\<close> on the static files: \<open>None\<close> stands for any error.

  \<^verbatim>\<open>writeFileSync\<close> and \<^verbatim>\<open>readFileSync\<close> transcode the text to and from UTF-8; the
  file is modelled by the text itself. The two views are kept apart: a write to the
  configuration file is not followed into the bytes that \<open>readFile\<close> returns.
\<close>

datatype file_state = Missing | Unreadable | Content jsstring

record filesystem =
  config_file :: file_state
  write_error :: "file_state option"
  readFile :: "string \<Rightarrow> 8 word list option"

text \<open>
  The room \<^verbatim>\<open>JSON.stringify\<close> finds on the engine's stack, in the callback of the
  request and in the callback of the \<^verbatim>\<open>end\<close> event of its body, and the room the
  engine has in a string.
\<close>

record engine =
  request_room :: nat
  end_room :: nat
  string_room :: nat

datatype payload = Text jsstring | Bytes "8 word list"

record response =
  statusCode :: nat
  headers :: "(string \<times> string) list"
  body :: payload

definition new_response :: response where
  "new_response = \<lparr>statusCode = 200, headers = [], body = Text []\<rparr>"

text \<open>
  \<^verbatim>\<open>res.setHeader\<close> replaces a header of the same name (names compare without case) or
  adds one; \<^verbatim>\<open>res.writeHead\<close> sets the status and merges its headers over those set
  before; \<^verbatim>\<open>res.end\<close> sends the body.
\<close>

fun put_header :: "string \<Rightarrow> string \<Rightarrow> (string \<times> string) list \<Rightarrow> (string \<times> string) list" where
  "put_header name val [] = [(name, val)]"
| "put_header name val ((n, v) # hs) =
     (if toLowerCase n = toLowerCase name then (name, val) # hs
      else (n, v) # put_header name val hs)"

definition setHeader :: "string \<Rightarrow> string \<Rightarrow> response \<Rightarrow> response" where
  "setHeader name val res = res\<lparr>headers := put_header name val (headers res)\<rparr>"

definition writeHead :: "nat \<Rightarrow> (string \<times> string) list \<Rightarrow> response \<Rightarrow> response" where
  "writeHead code hs res =
     res\<lparr>statusCode := code,
         headers := foldl (\<lambda>acc (n, v). put_header n v acc) (headers res) hs\<rparr>"

definition end_response :: "payload \<Rightarrow> response \<Rightarrow> response" where
  "end_response data res = res\<lparr>body := data\<rparr>"

definition lookup_header :: "(string \<times> string) list \<Rightarrow> string \<Rightarrow> string option" where
  "lookup_header hs name = map_of (map (\<lambda>(n, v). (toLowerCase n, v)) hs) (toLowerCase name)"

definition getHeader :: "response \<Rightarrow> string \<Rightarrow> string option" where
  "getHeader res name = lookup_header (headers res) name"

section \<open>Static files\<close>

definition serveStatic :: "string \<Rightarrow> filesystem \<Rightarrow> string \<Rightarrow> response \<Rightarrow> response" where
  "serveStatic dirname fs filePath res =
     (let fullPath = path_join [PUBLIC_DIR dirname, filePath]
      in case readFile fs fullPath of
           None \<Rightarrow>
             end_response (Text (js ''404 Not Found''))
               (writeHead 404 [(''Content-Type'', ''text/plain'')] res)
         | Some data \<Rightarrow>
             end_response (Bytes data)
               (writeHead 200 [(''Content-Type'', getContentType fullPath)] res))"


section \<open>The configuration store\<close>

definition readConfig :: "filesystem \<Rightarrow> json" where
  "readConfig fs =
     (case config_file fs of
        Content raw \<Rightarrow> (case JSON_parse raw of Some v \<Rightarrow> v | None \<Rightarrow> JObject [])
      | _ \<Rightarrow> JObject [])"

text \<open>
  The argument \<^verbatim>\<open>JSON.stringify(data, null, 2)\<close> is evaluated before
  \<^verbatim>\<open>fs.writeFileSync\<close> is called: when it throws, the file is not touched.
\<close>

definition writeConfig :: "engine \<Rightarrow> json \<Rightarrow> filesystem \<Rightarrow> (error + unit) \<times> filesystem" where
  "writeConfig eng data fs =
     (case JSON_stringify (end_room eng) (string_room eng) data 2 of
        Inl e \<Rightarrow> (Inl e, fs)
      | Inr text \<Rightarrow>
          (case write_error fs of
             None \<Rightarrow> (Inr (), fs\<lparr>config_file := Content text\<rparr>)
           | Some st \<Rightarrow> (Inl IOError, fs\<lparr>config_file := st\<rparr>)))"

section \<open>The request handler\<close>

text \<open>
  The handler either sends a response and leaves a file system, or throws: nothing
  catches an exception that leaves the callback, the process ends and the request gets
  no response.
\<close>

type_synonym outcome = "error + response \<times> filesystem"

record request =
  http_method :: string
  url :: string
  body_text :: jsstring

definition success_body :: json where
  "success_body = JObject [(js ''status'', JString (js ''success''))]"

definition error_body :: json where
  "error_body =
     JObject [(js ''status'', JString (js ''error'')),
              (js ''message'', JString (js ''Invalid JSON''))]"

text \<open>
  The \<^verbatim>\<open>catch\<close> block of the update, and the \<^verbatim>\<open>try\<close> block before it. Were
  \<^verbatim>\<open>JSON.stringify({ status: 'success' })\<close> to throw, \<^verbatim>\<open>res.writeHead(200, ...)\<close>
  would have run already and the \<^verbatim>\<open>res.writeHead(400, ...)\<close> of the \<^verbatim>\<open>catch\<close> block
  would throw in its turn.
\<close>

definition update_failed :: "engine \<Rightarrow> filesystem \<Rightarrow> response \<Rightarrow> outcome" where
  "update_failed eng fs res =
     (case JSON_stringify (end_room eng) (string_room eng) error_body 0 of
        Inl e \<Rightarrow> Inl e
      | Inr t \<Rightarrow>
          Inr (end_response (Text t)
                 (writeHead 400 [(''Content-Type'', ''application/json'')] res), fs))"

definition update_config :: "engine \<Rightarrow> filesystem \<Rightarrow> jsstring \<Rightarrow> response \<Rightarrow> outcome" where
  "update_config eng fs text res =
     (case JSON_parse text of
        None \<Rightarrow> update_failed eng fs res
      | Some data \<Rightarrow>
          (case writeConfig eng data fs of
             (Inl err, fs') \<Rightarrow> update_failed eng fs' res
           | (Inr u, fs') \<Rightarrow>
               (case JSON_stringify (end_room eng) (string_room eng) success_body 0 of
                  Inl e \<Rightarrow> Inl ERR_HTTP_HEADERS_SENT
                | Inr t \<Rightarrow>
                    Inr (end_response (Text t)
                           (writeHead 200 [(''Content-Type'', ''application/json'')] res),
                         fs'))))"

definition cors_path :: "string \<Rightarrow> bool" where
  "cors_path u = (startsWith u ''/config'' \<or> startsWith u ''/update-config'')"

definition cors_headers :: "response \<Rightarrow> response" where
  "cors_headers res =
     setHeader ''Access-Control-Allow-Headers'' ''Content-Type''
       (setHeader ''Access-Control-Allow-Methods'' ''GET, POST, OPTIONS''
          (setHeader ''Access-Control-Allow-Origin'' ''*'' res))"

definition handler :: "string \<Rightarrow> engine \<Rightarrow> filesystem \<Rightarrow> request \<Rightarrow> outcome" where
  "handler dirname eng fs req =
     (let u = strip_query (url req);
          res = (if cors_path u then cors_headers new_response else new_response)
      in if cors_path u \<and> http_method req = ''OPTIONS'' then
           Inr (end_response (Text []) (writeHead 204 [] res), fs)
         else if http_method req = ''GET'' then
           (if u = ''/config'' then
              (case JSON_stringify (request_room eng) (string_room eng) (readConfig fs) 0 of
                 Inl e \<Rightarrow> Inl e
               | Inr t \<Rightarrow>
                   Inr (end_response (Text t)
                          (writeHead 200 [(''Content-Type'', ''application/json'')] res),
                        fs))
            else
              Inr (serveStatic dirname fs (if u = ''/'' \<or> u = [] then ''/index.html'' else u) res,
                   fs))
         else if http_method req = ''POST'' \<and> u = ''/update-config'' then
           update_config eng fs (body_text req) res
         else
           Inr (end_response (Text (js ''Method Not Allowed''))
                  (writeHead 405 [(''Content-Type'', ''text/plain'')] res),
                fs))"

section \<open>Values that \<^verbatim>\<open>JSON.parse\<close> returns, and their texts\<close>






text \<open>
  What \<open>scan_number\<close> reads in the text \<open>format_decimal\<close> writes for the decimal
  \<open>s \<times> 10\<^sup>p\<close>, and so in the text of a number: in the layout without a fraction and
  an exponent, the zeros are digits of the integer. A number can end where no digit, no
  dot and no exponent letter follows.
\<close>

definition number_end :: "jsstring \<Rightarrow> bool" where
  "number_end rest =
     (rest = [] \<or> (\<not> is_digit (hd rest) \<and> hd rest \<noteq> 0x2E \<and> hd rest \<noteq> 0x65 \<and> hd rest \<noteq> 0x45))"







text \<open>Arrays in arrays, and the text that writes them.\<close>

fun nest :: "nat \<Rightarrow> json" where
  "nest 0 = JArray []"
| "nest (Suc n) = JArray [nest n]"

definition nested_text :: "nat \<Rightarrow> jsstring" where
  "nested_text n = replicate (Suc n) 0x5B @ replicate (Suc n) 0x5D"

section \<open>Example environments\<close>

text \<open>
  An engine, and the file systems of a server in \<^verbatim>\<open>/srv/app\<close> with no static files:
  one without a configuration file, two whose configuration file holds \<^verbatim>\<open>{}\<close> and
  \<^verbatim>\<open>{"vat":7.5}\<close>, and one where that file cannot be written.
\<close>

definition example_engine :: engine where
  "example_engine = \<lparr>request_room = 1000, end_room = 1000, string_room = 268435448\<rparr>"

definition empty_fs :: filesystem where
  "empty_fs = \<lparr>config_file = Missing, write_error = None, readFile = (\<lambda>p. None)\<rparr>"

definition example_fs :: filesystem where
  "example_fs =
     \<lparr>config_file = Content (js ''{}''), write_error = None,
      readFile = (\<lambda>p. if p = ''/srv/app/config.json'' then Some [123, 125] else None)\<rparr>"

definition vat_fs :: filesystem where
  "vat_fs =
     \<lparr>config_file = Content (js ''{\"vat\":7.5}''), write_error = None,
      readFile = (\<lambda>p. if p = ''/srv/app/config.json''
                       then Some [123, 34, 118, 97, 116, 34, 58, 55, 46, 53, 125] else None)\<rparr>"

definition broken_fs :: filesystem where
  "broken_fs =
     \<lparr>config_file = Content (js ''{}''), write_error = Some Unreadable,
      readFile = (\<lambda>p. if p = ''/srv/app/config.json'' then Some [123, 125] else None)\<rparr>"

section \<open>Facts about paths\<close>

lemma split_slash_plain: "CHR ''/'' \<notin> set s \<Longrightarrow> split_slash s = [s]"
  by (induction s) auto

lemma split_slash_not_Nil: "split_slash s \<noteq> []"
  by (induction s) (auto split: list.splits)

lemma split_slash_append:
  "split_slash (a @ CHR ''/'' # b) = split_slash a @ split_slash b"
  by (induction a) (auto simp: split_slash_not_Nil split: list.splits)

lemma join_slash_snoc:
  "join_slash (ds @ [s]) = (if ds = [] then s else join_slash ds @ CHR ''/'' # s)"
  by (induction ds rule: join_slash.induct) auto

lemma split_join_plain:
  "list_all plain_segment ds \<Longrightarrow> ds \<noteq> [] \<Longrightarrow> split_slash (join_slash ds) = ds"
proof (induction ds rule: join_slash.induct)
  case 1
  then show ?case by simp
next
  case (2 s)
  then show ?case by (simp add: plain_segment_def split_slash_plain)
next
  case (3 s t ss)
  then show ?case
    by (simp add: plain_segment_def split_slash_append split_slash_plain)
qed

lemma foldl_step_plain:
  "list_all plain_segment ds \<Longrightarrow> foldl (normalize_step b) res ds = res @ ds"
  by (induction ds arbitrary: res) (auto simp: normalize_step_def plain_segment_def)

lemma foldl_step_absolute:
  assumes "list_all plain_segment ds"
  shows "foldl (normalize_step b) [] (split_slash (absolute ds)) = ds"
proof (cases "ds = []")
  case True
  then show ?thesis by (simp add: absolute_def normalize_step_def)
next
  case False
  have "split_slash (absolute ds) = [] # ds"
    using assms False split_slash_append [of "[]" "join_slash ds"]
    by (simp add: absolute_def split_join_plain)
  then show ?thesis
    using assms foldl_step_plain [of ds b "[]"] by (simp add: normalize_step_def)
qed

lemma join_slash_Nil_iff: "list_all plain_segment ds \<Longrightarrow> join_slash ds = [] \<longleftrightarrow> ds = []"
  by (induction ds rule: join_slash.induct) (auto simp: plain_segment_def)

text \<open>Joining a path onto an absolute, normalised directory.\<close>

lemma path_join_absolute:
  assumes ds: "list_all plain_segment ds"
    and out: "list_all plain_segment (foldl (normalize_step False) ds (split_slash q))"
    and ne: "foldl (normalize_step False) ds (split_slash q) \<noteq> []"
    and q: "q \<noteq> []" "last q \<noteq> CHR ''/''"
  shows "path_join [absolute ds, q] = absolute (foldl (normalize_step False) ds (split_slash q))"
proof -
  let ?j = "absolute ds @ CHR ''/'' # q"
  have j: "join_slash (filter (\<lambda>a. a \<noteq> []) [absolute ds, q]) = ?j"
    using q by (simp add: absolute_def)
  have "split_slash ?j = split_slash (absolute ds) @ split_slash q"
    by (rule split_slash_append)
  then have f: "foldl (normalize_step False) [] (split_slash ?j)
      = foldl (normalize_step False) ds (split_slash q)"
    using foldl_step_absolute [OF ds, of False] by simp
  have "join_slash (foldl (normalize_step False) ds (split_slash q)) \<noteq> []"
    using out ne join_slash_Nil_iff by blast
  then have "normalize ?j = absolute (foldl (normalize_step False) ds (split_slash q))"
    using q f by (simp add: normalize_def normalizeString_def absolute_def Let_def)
  then show ?thesis
    unfolding path_join_def j by (simp add: absolute_def Let_def)
qed

lemma PUBLIC_DIR_absolute:
  assumes "list_all plain_segment ds"
  shows "PUBLIC_DIR (absolute ds) = absolute (ds @ [''public''])"
proof -
  have "foldl (normalize_step False) ds (split_slash ''public'') = ds @ [''public'']"
    by (simp add: normalize_step_def)
  then show ?thesis
    using path_join_absolute [OF assms, of "''public''"] assms
    by (simp add: PUBLIC_DIR_def plain_segment_def)
qed

lemma CONFIG_FILE_absolute:
  assumes "list_all plain_segment ds"
  shows "CONFIG_FILE (absolute ds) = absolute (ds @ [''config.json''])"
proof -
  have "foldl (normalize_step False) ds (split_slash ''config.json'') = ds @ [''config.json'']"
    by (simp add: normalize_step_def)
  then show ?thesis
    using path_join_absolute [OF assms, of "''config.json''"] assms
    by (simp add: CONFIG_FILE_def plain_segment_def)
qed

lemma traversal_resolves:
  assumes "list_all plain_segment ds"
  shows "path_join [PUBLIC_DIR (absolute ds), ''/../config.json''] = CONFIG_FILE (absolute ds)"
proof -
  have p: "list_all plain_segment (ds @ [''public''])"
    using assms by (simp add: plain_segment_def)
  have "foldl (normalize_step False) (ds @ [''public'']) (split_slash ''/../config.json'')
      = ds @ [''config.json'']"
    by (simp add: normalize_step_def)
  then have "path_join [absolute (ds @ [''public'']), ''/../config.json'']
      = absolute (ds @ [''config.json''])"
    using path_join_absolute [OF p, of "''/../config.json''"] assms
    by (simp add: plain_segment_def)
  then show ?thesis
    using assms by (simp add: PUBLIC_DIR_absolute CONFIG_FILE_absolute)
qed

lemma config_outside_public:
  assumes "list_all plain_segment ds"
  shows "\<not> inside (PUBLIC_DIR (absolute ds)) (CONFIG_FILE (absolute ds))"
proof -
  have "\<not> inside (absolute (ds @ [''public''])) (absolute (ds @ [''config.json'']))"
    by (auto simp: inside_def startsWith_def absolute_def join_slash_snoc)
  then show ?thesis
    using assms by (simp add: PUBLIC_DIR_absolute CONFIG_FILE_absolute)
qed

section \<open>Facts about responses\<close>

lemma getHeader_lookup: "getHeader res name = lookup_header (headers res) name"
  by (simp add: getHeader_def)

lemma lookup_put_header:
  "lookup_header (put_header n v hs) m =
     (if toLowerCase n = toLowerCase m then Some v else lookup_header hs m)"
  by (induction hs) (auto simp: lookup_header_def)

lemma getHeader_setHeader:
  "getHeader (setHeader n v res) m =
     (if toLowerCase n = toLowerCase m then Some v else getHeader res m)"
  by (simp add: getHeader_lookup setHeader_def lookup_put_header)

lemma getHeader_writeHead1:
  "getHeader (writeHead code [(n, v)] res) m =
     (if toLowerCase n = toLowerCase m then Some v else getHeader res m)"
  by (simp add: getHeader_lookup writeHead_def lookup_put_header)

lemma getHeader_writeHead0: "getHeader (writeHead code [] res) m = getHeader res m"
  by (simp add: getHeader_lookup writeHead_def)

lemma getHeader_end_response: "getHeader (end_response data res) m = getHeader res m"
  by (simp add: getHeader_lookup end_response_def)

lemma statusCode_simps:
  "statusCode (end_response data res) = statusCode res"
  "statusCode (writeHead code hs res) = code"
  "body (end_response data res) = data"
  by (simp_all add: end_response_def writeHead_def)

lemma lower_names:
  "toLowerCase ''Content-Type'' = ''content-type''"
  "toLowerCase ''Access-Control-Allow-Origin'' = ''access-control-allow-origin''"
  "toLowerCase ''Access-Control-Allow-Methods'' = ''access-control-allow-methods''"
  "toLowerCase ''Access-Control-Allow-Headers'' = ''access-control-allow-headers''"
  by code_simp+

lemma getHeader_cors_headers:
  "getHeader (cors_headers res) ''Access-Control-Allow-Origin'' = Some ''*''"
  "getHeader (cors_headers res) ''Access-Control-Allow-Methods'' = Some ''GET, POST, OPTIONS''"
  "getHeader (cors_headers res) ''Access-Control-Allow-Headers'' = Some ''Content-Type''"
  by (simp_all add: cors_headers_def getHeader_setHeader lower_names)

lemma getHeader_serveStatic:
  "toLowerCase m \<noteq> ''content-type'' \<Longrightarrow> getHeader (serveStatic d fs p res) m = getHeader res m"
  by (auto simp: serveStatic_def Let_def getHeader_end_response getHeader_writeHead1 lower_names
      split: option.splits)

text \<open>
  \<^verbatim>\<open>JSON.stringify\<close> returns the text of a value within the engine's limits. The two
  fixed bodies and the empty object have one level and a short text.
\<close>

lemma JSON_stringify_returns:
  assumes "depth v \<le> Suc room"
    and "length (serialize (replicate (min space 10) 0x20) [] v) \<le> 268435440 + chars"
  shows "JSON_stringify room chars v space
    = Inr (serialize (replicate (min space 10) 0x20) [] v)"
  using assms by (simp add: JSON_stringify_def Let_def)


lemma JSON_stringify_throws:
  "JSON_stringify room chars v space = Inl e \<Longrightarrow>
   e = RangeError
   \<and> (Suc room < depth v
      \<or> 268435440 + chars < length (serialize (replicate (min space 10) 0x20) [] v))"
  by (simp add: JSON_stringify_def Let_def split: if_splits)

lemma error_serialized:
  "serialize [] [] error_body = js ''{\"status\":\"error\",\"message\":\"Invalid JSON\"}''"
  by code_simp

lemma success_serialized:
  "serialize [] [] success_body = js ''{\"status\":\"success\"}''"
  by code_simp

lemma error_text:
  "JSON_stringify room chars error_body 0
     = Inr (js ''{\"status\":\"error\",\"message\":\"Invalid JSON\"}'')"
proof -
  have "depth error_body = 1"
    by (simp add: error_body_def)
  then show ?thesis
    using JSON_stringify_returns [of error_body room 0 chars]
    by (simp add: error_serialized js_def)
qed

lemma success_text:
  "JSON_stringify room chars success_body 0 = Inr (js ''{\"status\":\"success\"}'')"
proof -
  have "depth success_body = 1"
    by (simp add: success_body_def)
  then show ?thesis
    using JSON_stringify_returns [of success_body room 0 chars]
    by (simp add: success_serialized js_def)
qed

lemma empty_object_text: "JSON_stringify room chars (JObject []) 0 = Inr (js ''{}'')"
proof -
  have "serialize [] [] (JObject []) = js ''{}''"
    by code_simp
  then show ?thesis
    using JSON_stringify_returns [of "JObject []" room 0 chars]
    by (simp add: js_def)
qed

lemma update_failed_eq:
  "update_failed eng fs res =
     Inr (end_response (Text (js ''{\"status\":\"error\",\"message\":\"Invalid JSON\"}''))
            (writeHead 400 [(''Content-Type'', ''application/json'')] res), fs)"
  by (simp add: update_failed_def error_text)

lemma getHeader_update_config:
  assumes "update_config eng fs text res = Inr (r, fs')"
    and "toLowerCase m \<noteq> ''content-type''"
  shows "getHeader r m = getHeader res m"
  using assms
  by (auto simp: update_config_def update_failed_eq success_text getHeader_end_response
      getHeader_writeHead1 lower_names split: option.splits prod.splits sum.splits)

lemma update_config_responds: "update_config eng fs text res \<noteq> Inl e"
  by (auto simp: update_config_def update_failed_eq success_text
      split: option.splits prod.splits sum.splits)

lemma cors_update_config: "cors_path ''/update-config''"
  by code_simp

lemma cors_config: "cors_path ''/config''"
  by code_simp

text \<open>
  \<^verbatim>\<open>GET /config\<close> in full: the response carries the text of the configuration read, and
  there is none when \<^verbatim>\<open>JSON.stringify(config)\<close> throws.
\<close>

lemma handler_get_config:
  assumes "http_method req = ''GET''" and "strip_query (url req) = ''/config''"
  shows "handler d eng fs req =
    (case JSON_stringify (request_room eng) (string_room eng) (readConfig fs) 0 of
       Inl e \<Rightarrow> Inl e
     | Inr t \<Rightarrow>
         Inr (end_response (Text t)
                (writeHead 200 [(''Content-Type'', ''application/json'')]
                   (cors_headers new_response)), fs))"
  using assms by (simp add: handler_def Let_def cors_config)

section \<open>Rounding to a double\<close>

declare digit_count.simps [simp del]






lemma round_half_even_of_int [simp]: "round_half_even (of_int m) = m"
  by (simp add: round_half_even_def)












declare strip_zeros.simps [simp del]


section \<open>The text of a number, read back\<close>

declare digits.simps [simp del]













lemma not_digit_simps [simp]:
  "\<not> is_digit 0x2E" "\<not> is_digit 0x65" "\<not> is_digit 0x45" "\<not> is_digit 0x2D" "\<not> is_digit 0x2B"
  by (simp_all add: is_digit_def)









lemma js_singletons [simp]:
  "js ''.'' = [0x2E]" "js ''e'' = [0x65]" "js ''-'' = [0x2D]" "js ''+'' = [0x2B]"
  "js ''0.'' = [0x30, 0x2E]" "js ''0'' = [0x30]"
  by (simp_all add: js_def)

lemma digit_char_0 [simp]: "digit_char 0 = 0x30"
  by (simp add: digit_char_def)





lemma number_of_decimal_sign:
  "number_of_rat (decimal_value c p) = Finite s m e \<Longrightarrow> number_of_decimal neg c p = Finite neg m e"
  by (simp add: number_of_decimal_def)



section \<open>The text of a string, read back\<close>






lemma scan_string_raw:
  "\<not> c < 0x20 \<Longrightarrow> c \<noteq> 0x22 \<Longrightarrow> c \<noteq> 0x5C \<Longrightarrow> scan_string (c # r) = cons_unit c (scan_string r)"
  by simp




section \<open>The tokens of the text of a value\<close>

declare lex.simps(2) [simp del]



lemma lex_punctuation:
  "lex (0x7B # cs) = map_option ((#) LBrace) (lex cs)"
  "lex (0x7D # cs) = map_option ((#) RBrace) (lex cs)"
  "lex (0x5B # cs) = map_option ((#) LBracket) (lex cs)"
  "lex (0x5D # cs) = map_option ((#) RBracket) (lex cs)"
  "lex (0x2C # cs) = map_option ((#) Comma) (lex cs)"
  "lex (0x3A # cs) = map_option ((#) Colon) (lex cs)"
  by (simp_all add: lex.simps(2) is_ws_def)








lemma number_end_Cons:
  "\<not> is_digit c \<Longrightarrow> c \<noteq> 0x2E \<Longrightarrow> c \<noteq> 0x65 \<Longrightarrow> c \<noteq> 0x45 \<Longrightarrow> number_end (c # cs)"
  by (simp add: number_end_def)

lemma number_end_comma [simp]: "number_end (0x2C # cs)"
  by (simp add: number_end_def is_digit_def)

lemma number_end_newline [simp]: "number_end (0x0A # cs)"
  by (simp add: number_end_def is_digit_def)

lemma number_end_brackets [simp]: "number_end (0x5D # cs)" "number_end (0x7D # cs)"
  by (simp_all add: number_end_def is_digit_def)




section \<open>Parsing the tokens of a value\<close>

declare parse_elements.simps [simp del] parse_members.simps [simp del]











section \<open>What \<^verbatim>\<open>JSON.parse\<close> returns\<close>













section \<open>Stored and served again\<close>









section \<open>Values that are not written\<close>

lemma depth_nest: "depth (nest n) = Suc n"
  by (induction n) simp_all

lemma lex_brackets:
  assumes "lex cs = Some ts"
  shows "lex (replicate k 0x5B @ cs) = Some (replicate k LBracket @ ts)"
    and "lex (replicate k 0x5D @ cs) = Some (replicate k RBracket @ ts)"
  using assms by (induction k) (simp_all add: lex_punctuation)

lemma lex_nested_text:
  "lex (nested_text n) = Some (replicate (Suc n) LBracket @ replicate (Suc n) RBracket)"
proof -
  have "lex (replicate (Suc n) 0x5D @ []) = Some (replicate (Suc n) RBracket @ [])"
    by (rule lex_brackets(2)) simp
  then have "lex (replicate (Suc n) 0x5D) = Some (replicate (Suc n) RBracket)"
    by simp
  then show ?thesis
    unfolding nested_text_def by (rule lex_brackets(1))
qed

lemma parse_value_nested:
  "parse_value (replicate (Suc n) LBracket @ replicate (Suc n) RBracket @ rest)
     = Some (nest n, rest)"
proof (induction n arbitrary: rest)
  case 0
  then show ?case by simp
next
  case (Suc n)
  have "parse_elements (replicate (Suc n) LBracket @ replicate (Suc n) RBracket @ RBracket # rest)
      = Some ([nest n], rest)"
    using Suc [of "RBracket # rest"]
    by (subst parse_elements.simps) simp
  then show ?case
    by (simp add: replicate_app_Cons_same)
qed

lemma JSON_parse_nested: "JSON_parse (nested_text n) = Some (nest n)"
  using parse_value_nested [of n "[]"] by (simp add: JSON_parse_def lex_nested_text)

text \<open>
  A configuration file of nested arrays is read as it is written, and when it nests
  deeper than \<^verbatim>\<open>JSON.stringify\<close> finds room for, \<^verbatim>\<open>GET /config\<close> throws. In an
  update the same exception is caught with the others.
\<close>

lemma deep_config_unanswered:
  assumes "http_method req = ''GET''" and "strip_query (url req) = ''/config''"
    and "config_file fs = Content (nested_text n)"
    and "request_room eng < n"
  shows "readConfig fs = nest n" and "handler d eng fs req = Inl RangeError"
proof -
  show r: "readConfig fs = nest n"
    using assms(3) by (simp add: readConfig_def JSON_parse_nested)
  show "handler d eng fs req = Inl RangeError"
    using assms(4)
    by (simp add: handler_get_config [OF assms(1,2)] r JSON_stringify_def Let_def depth_nest)
qed

lemma unserialisable_body_rejected:
  assumes "http_method req = ''POST''" and "strip_query (url req) = ''/update-config''"
    and "JSON_parse (body_text req) = Some v"
    and "JSON_stringify (end_room eng) (string_room eng) v 2 = Inl e"
  shows "handler d eng fs req =
    Inr (end_response (Text (js ''{\"status\":\"error\",\"message\":\"Invalid JSON\"}''))
           (writeHead 400 [(''Content-Type'', ''application/json'')] (cors_headers new_response)),
         fs)"
  using assms
  by (simp add: handler_def Let_def update_config_def writeConfig_def update_failed_eq
      cors_update_config)

section \<open>Claims\<close>

subsection \<open>C1: a configuration that is posted is served again\<close>





subsection \<open>C2: a malformed body is rejected and nothing is written\<close>

text \<open>
  C2. For every request body that \<^verbatim>\<open>JSON.parse\<close> rejects, \<^verbatim>\<open>POST /update-config\<close>
  responds with status 400 and the JSON body
  \<^verbatim>\<open>{"status":"error","message":"Invalid JSON"}\<close>, and the file system, so the
  configuration file, is what it was: \<^verbatim>\<open>writeConfig\<close> is not reached.
\<close>

theorem malformed_body_rejected:
  assumes "http_method req = ''POST''"
    and "strip_query (url req) = ''/update-config''"
    and "JSON_parse (body_text req) = None"
  shows "case handler d eng fs req of
      Inl e \<Rightarrow> False
    | Inr (res, fs') \<Rightarrow>
        statusCode res = 400
        \<and> getHeader res ''Content-Type'' = Some ''application/json''
        \<and> body res = Text (js ''{\"status\":\"error\",\"message\":\"Invalid JSON\"}'')
        \<and> fs' = fs"
  using assms
  by (simp add: handler_def Let_def update_config_def update_failed_eq statusCode_simps
      getHeader_end_response getHeader_writeHead1 lower_names cors_update_config)

theorem malformed_body_rejected_witness:
  "JSON_parse (js ''not json'') = None
   \<and> (case handler ''/srv/app'' example_engine example_fs
        \<lparr>http_method = ''POST'', url = ''/update-config'', body_text = js ''not json''\<rparr> of
        Inl e \<Rightarrow> False
      | Inr (res, fs') \<Rightarrow> statusCode res = 400 \<and> fs' = example_fs)"
proof -
  let ?req = "\<lparr>http_method = ''POST'', url = ''/update-config'', body_text = js ''not json''\<rparr>"
  have h1: "http_method ?req = ''POST''" by simp
  have h2: "strip_query (url ?req) = ''/update-config''" by code_simp
  have h3: "JSON_parse (js ''not json'') = None" by code_simp
  have h3': "JSON_parse (body_text ?req) = None" using h3 by simp
  show ?thesis
    using malformed_body_rejected [OF h1 h2 h3', where d = "''/srv/app''" and eng = example_engine
        and fs = example_fs] h3
    by (auto split: sum.splits)
qed


subsection \<open>C3: reading the configuration never fails\<close>

text \<open>
  C3. In each of the three states the claim names, the configuration file missing,
  unreadable or holding a text that \<^verbatim>\<open>JSON.parse\<close> rejects, \<^verbatim>\<open>readConfig\<close> returns
  the empty object, and \<^verbatim>\<open>GET /config\<close> responds with status 200, content type
  \<^verbatim>\<open>application/json\<close> and the body \<^verbatim>\<open>{}\<close>, leaving the file system as it was. When
  the file holds a text that parses, the response is 200 with content type
  \<^verbatim>\<open>application/json\<close> and the text of the parsed value, provided
  \<^verbatim>\<open>JSON.stringify(config)\<close> returns one: that call is outside any \<^verbatim>\<open>try\<close>.
\<close>

theorem readConfig_never_fails:
  "((config_file fs = Missing \<or> config_file fs = Unreadable
       \<or> (\<exists>raw. config_file fs = Content raw \<and> JSON_parse raw = None))
     \<longrightarrow> readConfig fs = JObject []
       \<and> (http_method req = ''GET'' \<and> strip_query (url req) = ''/config''
          \<longrightarrow> (case handler d eng fs req of
                 Inl e \<Rightarrow> False
               | Inr (res, fs') \<Rightarrow>
                   statusCode res = 200
                   \<and> getHeader res ''Content-Type'' = Some ''application/json''
                   \<and> body res = Text (js ''{}'')
                   \<and> fs' = fs)))
   \<and> (http_method req = ''GET'' \<and> strip_query (url req) = ''/config''
       \<and> JSON_stringify (request_room eng) (string_room eng) (readConfig fs) 0 = Inr t
     \<longrightarrow> (case handler d eng fs req of
            Inl e \<Rightarrow> False
          | Inr (res, fs') \<Rightarrow>
              statusCode res = 200
              \<and> getHeader res ''Content-Type'' = Some ''application/json''
              \<and> body res = Text t
              \<and> fs' = fs))"
proof -
  have r: "readConfig fs = JObject []"
    if "config_file fs = Missing \<or> config_file fs = Unreadable
       \<or> (\<exists>raw. config_file fs = Content raw \<and> JSON_parse raw = None)"
    using that by (auto simp: readConfig_def)
  show ?thesis
    using r
    by (auto simp: handler_get_config empty_object_text statusCode_simps getHeader_end_response
        getHeader_writeHead1 lower_names)
qed

theorem readConfig_never_fails_witness:
  "config_file empty_fs = Missing
   \<and> readConfig empty_fs = JObject []
   \<and> (case handler ''/srv/app'' example_engine empty_fs
        \<lparr>http_method = ''GET'', url = ''/config'', body_text = []\<rparr> of
        Inl e \<Rightarrow> False
      | Inr (res, fs') \<Rightarrow> statusCode res = 200 \<and> body res = Text (js ''{}''))
   \<and> JSON_stringify (request_room example_engine) (string_room example_engine)
         (readConfig vat_fs) 0 = Inr (js ''{\"vat\":7.5}'')
   \<and> (case handler ''/srv/app'' example_engine vat_fs
        \<lparr>http_method = ''GET'', url = ''/config'', body_text = []\<rparr> of
        Inl e \<Rightarrow> False
      | Inr (res, fs') \<Rightarrow> statusCode res = 200 \<and> body res = Text (js ''{\"vat\":7.5}''))"
proof -
  let ?req = "\<lparr>http_method = ''GET'', url = ''/config'', body_text = []\<rparr>"
  let ?v = "JObject [(js ''vat'', JNumber (Finite False 8444249301319680 (- 50)))]"
  have h1: "config_file empty_fs = Missing" by (simp add: empty_fs_def)
  have h2: "http_method ?req = ''GET'' \<and> strip_query (url ?req) = ''/config''" by code_simp
  have p: "JSON_parse (js ''{\"vat\":7.5}'') = Some ?v" by code_simp
  have r: "readConfig vat_fs = ?v" by (simp add: readConfig_def vat_fs_def p)
  have t: "serialize [] [] ?v = js ''{\"vat\":7.5}''" by code_simp
  have e: "replicate (min 0 10) (0x20 :: jschar) = []" by simp
  have h3: "JSON_stringify (request_room example_engine) (string_room example_engine)
      (readConfig vat_fs) 0 = Inr (js ''{\"vat\":7.5}'')"
    using JSON_stringify_returns [of ?v "request_room example_engine" 0 "string_room example_engine"]
    unfolding e t r by (simp add: example_engine_def js_def)
  show ?thesis
    using readConfig_never_fails [where fs = empty_fs and req = ?req and d = "''/srv/app''"
        and eng = example_engine] h1 h2
      readConfig_never_fails [where fs = vat_fs and req = ?req and d = "''/srv/app''"
        and eng = example_engine and t = "js ''{\"vat\":7.5}''"] h3
    by (auto split: sum.splits)
qed


subsection \<open>C4: static files are resolved without a check against the root\<close>

text \<open>
  C4. Some request path with a parent-directory component resolves, in
  \<^verbatim>\<open>serveStatic\<close>, to a path outside the static root. In every deployment directory
  the request path \<^verbatim>\<open>/../config.json\<close> has a \<^verbatim>\<open>..\<close> segment, is resolved by
  \<^verbatim>\<open>path.join(PUBLIC_DIR, filePath)\<close> to the configuration file beside the static root,
  which is not inside the root, and the file found there is served with status 200.
\<close>

theorem serveStatic_escapes_root:
  assumes "list_all plain_segment ds"
    and "readFile fs (CONFIG_FILE (absolute ds)) = Some data"
  shows "''..'' \<in> set (split_slash ''/../config.json'')
    \<and> path_join [PUBLIC_DIR (absolute ds), ''/../config.json''] = CONFIG_FILE (absolute ds)
    \<and> \<not> inside (PUBLIC_DIR (absolute ds)) (CONFIG_FILE (absolute ds))
    \<and> statusCode (serveStatic (absolute ds) fs ''/../config.json'' new_response) = 200
    \<and> body (serveStatic (absolute ds) fs ''/../config.json'' new_response) = Bytes data"
proof -
  have "''..'' \<in> set (split_slash ''/../config.json'')"
    by simp
  moreover have "statusCode (serveStatic (absolute ds) fs ''/../config.json'' new_response) = 200"
    using assms
    by (simp add: serveStatic_def traversal_resolves writeHead_def end_response_def)
  moreover have "body (serveStatic (absolute ds) fs ''/../config.json'' new_response) = Bytes data"
    using assms
    by (simp add: serveStatic_def traversal_resolves writeHead_def end_response_def)
  ultimately show ?thesis
    using assms(1) traversal_resolves config_outside_public by blast
qed

theorem serveStatic_escapes_root_witness:
  "path_join [PUBLIC_DIR ''/srv/app'', ''/../config.json''] = ''/srv/app/config.json''
    \<and> \<not> inside (PUBLIC_DIR ''/srv/app'') ''/srv/app/config.json''
    \<and> statusCode (serveStatic ''/srv/app'' example_fs ''/../config.json'' new_response) = 200
    \<and> body (serveStatic ''/srv/app'' example_fs ''/../config.json'' new_response)
        = Bytes [123, 125]"
proof -
  have a: "absolute [''srv'', ''app''] = ''/srv/app''"
    by (simp add: absolute_def)
  have c: "CONFIG_FILE ''/srv/app'' = ''/srv/app/config.json''"
    by code_simp
  have h1: "list_all plain_segment [''srv'', ''app'']"
    by (simp add: plain_segment_def)
  have h2: "readFile example_fs (CONFIG_FILE (absolute [''srv'', ''app''])) = Some [123, 125]"
    unfolding a c by (simp add: example_fs_def)
  show ?thesis
    using serveStatic_escapes_root [OF h1 h2] unfolding a c by blast
qed


subsection \<open>C5: other methods\<close>

text \<open>
  C5. A request whose method is not \<^verbatim>\<open>GET\<close>, that is not a \<^verbatim>\<open>POST\<close> to
  \<^verbatim>\<open>/update-config\<close> and not an \<^verbatim>\<open>OPTIONS\<close> on a path starting with \<^verbatim>\<open>/config\<close> or
  \<^verbatim>\<open>/update-config\<close>, gets status 405 with the plain-text body
  \<^verbatim>\<open>Method Not Allowed\<close>; the file system is untouched and the response does not
  depend on the request body. A \<^verbatim>\<open>PUT\<close> to any path gets 405.
\<close>

theorem method_not_allowed:
  "(http_method req \<noteq> ''GET''
      \<and> \<not> (http_method req = ''POST'' \<and> strip_query (url req) = ''/update-config'')
      \<and> \<not> (http_method req = ''OPTIONS'' \<and> cors_path (strip_query (url req)))
    \<longrightarrow> (case handler d eng fs req of
           Inl e \<Rightarrow> False
         | Inr (res, fs') \<Rightarrow>
             statusCode res = 405
             \<and> body res = Text (js ''Method Not Allowed'')
             \<and> getHeader res ''Content-Type'' = Some ''text/plain''
             \<and> fs' = fs)
      \<and> handler d eng fs (req\<lparr>body_text := b\<rparr>) = handler d eng fs req)
   \<and> (http_method req = ''PUT''
    \<longrightarrow> (case handler d eng fs req of
           Inl e \<Rightarrow> False
         | Inr (res, fs') \<Rightarrow> statusCode res = 405))"
  by (auto simp: handler_def Let_def statusCode_simps getHeader_end_response getHeader_writeHead1
      lower_names)

theorem method_not_allowed_witness:
  "case handler ''/srv/app'' example_engine example_fs
      \<lparr>http_method = ''PUT'', url = ''/config'', body_text = js ''{}''\<rparr> of
     Inl e \<Rightarrow> False
   | Inr (res, fs') \<Rightarrow> statusCode res = 405 \<and> fs' = example_fs"
  using method_not_allowed
    [where req = "\<lparr>http_method = ''PUT'', url = ''/config'', body_text = js ''{}''\<rparr>"
      and d = "''/srv/app''" and eng = example_engine and fs = example_fs and b = "[]"]
  by (auto split: sum.splits)


subsection \<open>C6: content types\<close>

text \<open>
  C6, as stated, sends every extension other than the ten listed ones to
  \<^verbatim>\<open>application/octet-stream\<close>. The path below has the extension \<^verbatim>\<open>.PNG\<close>, which is
  none of the table's keys, and yet gets \<^verbatim>\<open>image/png\<close>: \<^verbatim>\<open>getContentType\<close> lower-cases
  the extension before it looks it up.
\<close>

theorem getContentType_upper_case_extension:
  "extname ''/srv/app/public/LOGO.PNG'' = ''.PNG''
    \<and> ''.PNG'' \<notin> set (map fst types)
    \<and> getContentType ''/srv/app/public/LOGO.PNG'' = ''image/png''"
  by code_simp

text \<open>
  C6, amended. For every file path, \<^verbatim>\<open>getContentType\<close> takes the extension
  (\<^verbatim>\<open>path.extname\<close>) in lower case and maps \<^verbatim>\<open>.html\<close>, \<^verbatim>\<open>.css\<close>, \<^verbatim>\<open>.js\<close>,
  \<^verbatim>\<open>.json\<close>, \<^verbatim>\<open>.png\<close>, \<^verbatim>\<open>.jpg\<close>, \<^verbatim>\<open>.jpeg\<close>, \<^verbatim>\<open>.gif\<close>, \<^verbatim>\<open>.svg\<close>, \<^verbatim>\<open>.ico\<close> to
  their types, and every other or missing extension to \<^verbatim>\<open>application/octet-stream\<close>.
\<close>

theorem getContentType_table:
  "getContentType p =
     (let e = toLowerCase (extname p) in
      if e = ''.html'' then ''text/html''
      else if e = ''.css'' then ''text/css''
      else if e = ''.js'' then ''application/javascript''
      else if e = ''.json'' then ''application/json''
      else if e = ''.png'' then ''image/png''
      else if e = ''.jpg'' then ''image/jpeg''
      else if e = ''.jpeg'' then ''image/jpeg''
      else if e = ''.gif'' then ''image/gif''
      else if e = ''.svg'' then ''image/svg+xml''
      else if e = ''.ico'' then ''image/x-icon''
      else ''application/octet-stream'')"
  by (simp add: getContentType_def types_def Let_def)


subsection \<open>C7: posting the same configuration twice\<close>





subsection \<open>C8: the preflight request\<close>

text \<open>
  C8. An \<^verbatim>\<open>OPTIONS\<close> request whose path starts with \<^verbatim>\<open>/config\<close> or
  \<^verbatim>\<open>/update-config\<close> gets status 204, an empty body and exactly the three
  \<^verbatim>\<open>Access-Control-Allow-*\<close> headers; nothing is written.
\<close>

theorem options_preflight:
  assumes "http_method req = ''OPTIONS''" and "cors_path (strip_query (url req))"
  shows "handler d eng fs req =
    Inr (\<lparr>statusCode = 204,
          headers = [(''Access-Control-Allow-Origin'', ''*''),
                     (''Access-Control-Allow-Methods'', ''GET, POST, OPTIONS''),
                     (''Access-Control-Allow-Headers'', ''Content-Type'')],
          body = Text []\<rparr>, fs)"
proof -
  have "cors_headers new_response =
    \<lparr>statusCode = 200,
     headers = [(''Access-Control-Allow-Origin'', ''*''),
                (''Access-Control-Allow-Methods'', ''GET, POST, OPTIONS''),
                (''Access-Control-Allow-Headers'', ''Content-Type'')],
     body = Text []\<rparr>"
    by code_simp
  then show ?thesis
    using assms by (simp add: handler_def Let_def writeHead_def end_response_def)
qed

theorem options_preflight_witness:
  "cors_path (strip_query ''/update-config?draft=1'')
   \<and> handler ''/srv/app'' example_engine example_fs
         \<lparr>http_method = ''OPTIONS'', url = ''/update-config?draft=1'', body_text = []\<rparr>
     = Inr (\<lparr>statusCode = 204,
            headers = [(''Access-Control-Allow-Origin'', ''*''),
                       (''Access-Control-Allow-Methods'', ''GET, POST, OPTIONS''),
                       (''Access-Control-Allow-Headers'', ''Content-Type'')],
            body = Text []\<rparr>, example_fs)"
proof -
  let ?req = "\<lparr>http_method = ''OPTIONS'', url = ''/update-config?draft=1'', body_text = []\<rparr>"
  have h1: "http_method ?req = ''OPTIONS''" by simp
  have h2: "cors_path (strip_query (url ?req))" by code_simp
  show ?thesis
    using options_preflight [OF h1 h2, where d = "''/srv/app''" and eng = example_engine
        and fs = example_fs] h2 by simp
qed


subsection \<open>C9: a failed write is reported as invalid JSON\<close>

text \<open>
  C9. When the body of a \<^verbatim>\<open>POST /update-config\<close> parses but \<^verbatim>\<open>writeConfig\<close> throws,
  the response has status 400 and the body
  \<^verbatim>\<open>{"status":"error","message":"Invalid JSON"}\<close>: it is the very response a body
  that does not parse gets.
\<close>

theorem write_failure_reported_as_invalid_json:
  assumes "http_method req = ''POST''"
    and "strip_query (url req) = ''/update-config''"
    and "JSON_parse (body_text req) = Some data"
    and "write_error fs = Some st"
    and "JSON_parse bad = None"
  shows "case handler d eng fs req of
      Inl e \<Rightarrow> False
    | Inr (res, fs') \<Rightarrow>
        statusCode res = 400
        \<and> body res = Text (js ''{\"status\":\"error\",\"message\":\"Invalid JSON\"}'')
        \<and> (case handler d eng fs (req\<lparr>body_text := bad\<rparr>) of
             Inl e \<Rightarrow> False
           | Inr (res', fs'') \<Rightarrow> res' = res)"
  using assms
  by (auto simp: handler_def Let_def update_config_def update_failed_eq writeConfig_def
      statusCode_simps cors_update_config split: sum.splits)

theorem write_failure_reported_as_invalid_json_witness:
  "JSON_parse (js ''{\"ok\":true}'') = Some (JObject [(js ''ok'', JBool True)])
   \<and> JSON_parse (js ''not json'') = None
   \<and> write_error broken_fs = Some Unreadable
   \<and> (case handler ''/srv/app'' example_engine broken_fs
        \<lparr>http_method = ''POST'', url = ''/update-config'', body_text = js ''{\"ok\":true}''\<rparr> of
        Inl e \<Rightarrow> False
      | Inr (res, fs') \<Rightarrow> statusCode res = 400)"
proof -
  let ?req = "\<lparr>http_method = ''POST'', url = ''/update-config'', body_text = js ''{\"ok\":true}''\<rparr>"
  have h1: "http_method ?req = ''POST''" by simp
  have h2: "strip_query (url ?req) = ''/update-config''" by code_simp
  have h3: "JSON_parse (js ''{\"ok\":true}'') = Some (JObject [(js ''ok'', JBool True)])"
    by code_simp
  have h3': "JSON_parse (body_text ?req) = Some (JObject [(js ''ok'', JBool True)])"
    using h3 by simp
  have h4: "write_error broken_fs = Some Unreadable" by (simp add: broken_fs_def)
  have h5: "JSON_parse (js ''not json'') = None" by code_simp
  show ?thesis
    using write_failure_reported_as_invalid_json
      [OF h1 h2 h3' h4 h5, where d = "''/srv/app''" and eng = example_engine] h3 h4 h5
    by (auto split: sum.splits)
qed


subsection \<open>C10: the cross-origin headers do not depend on the method\<close>

text \<open>
  C10. Every request whose path, without its query string, starts with \<^verbatim>\<open>/config\<close> or
  \<^verbatim>\<open>/update-config\<close> is answered with the three \<^verbatim>\<open>Access-Control-Allow-*\<close> headers,
  whatever its method and whichever branch answers it. The match is on the prefix:
  \<^verbatim>\<open>/configuration\<close> is such a path. The one request that is not answered at all is
  a \<^verbatim>\<open>GET /config\<close> on which \<^verbatim>\<open>JSON.stringify(config)\<close> throws.
\<close>

theorem cors_headers_on_every_method:
  assumes "cors_path (strip_query (url req))"
  shows "(case handler d eng fs req of
       Inl e \<Rightarrow>
         http_method req = ''GET'' \<and> strip_query (url req) = ''/config''
         \<and> JSON_stringify (request_room eng) (string_room eng) (readConfig fs) 0 = Inl e
     | Inr (res, fs') \<Rightarrow>
         getHeader res ''Access-Control-Allow-Origin'' = Some ''*''
         \<and> getHeader res ''Access-Control-Allow-Methods'' = Some ''GET, POST, OPTIONS''
         \<and> getHeader res ''Access-Control-Allow-Headers'' = Some ''Content-Type'')
    \<and> cors_path (strip_query ''/configuration?x=1'')"
proof -
  have n: "toLowerCase ''Access-Control-Allow-Origin'' \<noteq> ''content-type''"
    "toLowerCase ''Access-Control-Allow-Methods'' \<noteq> ''content-type''"
    "toLowerCase ''Access-Control-Allow-Headers'' \<noteq> ''content-type''"
    by (simp_all add: lower_names)
  have crash: "http_method req = ''GET'' \<and> strip_query (url req) = ''/config''
      \<and> JSON_stringify (request_room eng) (string_room eng) (readConfig fs) 0 = Inl e"
    if "handler d eng fs req = Inl e" for e
    using that
    by (auto simp: handler_def Let_def update_config_responds split: if_splits sum.splits)
  have sent: "getHeader res m = getHeader (cors_headers new_response) m"
    if "handler d eng fs req = Inr (res, fs')" and "toLowerCase m \<noteq> ''content-type''"
    for res fs' m
    using that assms
      getHeader_update_config [of eng fs "body_text req" "cors_headers new_response" res fs' m]
    by (auto simp: handler_def Let_def getHeader_end_response getHeader_writeHead1
        getHeader_writeHead0 getHeader_serveStatic lower_names
        split: if_splits sum.splits)
  have "cors_path (strip_query ''/configuration?x=1'')"
    by code_simp
  then show ?thesis
    using crash sent n by (auto simp: getHeader_cors_headers split: sum.splits)
qed

theorem cors_headers_on_every_method_witness:
  "cors_path (strip_query ''/configuration'')
   \<and> (case handler ''/srv/app'' example_engine example_fs
         \<lparr>http_method = ''GET'', url = ''/configuration'', body_text = []\<rparr> of
         Inl e \<Rightarrow> False
       | Inr (res, fs') \<Rightarrow> getHeader res ''Access-Control-Allow-Origin'' = Some ''*'')"
proof -
  let ?req = "\<lparr>http_method = ''GET'', url = ''/configuration'', body_text = []\<rparr>"
  have h: "cors_path (strip_query (url ?req))"
    by code_simp
  have p: "strip_query (url ?req) \<noteq> ''/config''"
    by code_simp
  show ?thesis
    using cors_headers_on_every_method [OF h, where d = "''/srv/app''" and eng = example_engine
        and fs = example_fs] h p
    by (auto split: sum.splits)
qed

end
